theory Spec2Isabelle
  imports Main
begin

section \<open>Hospital management system: the page handlers of \<open>app.py\<close>\<close>

text \<open>
  The application is one script, \<open>app.py\<close>, run from the top once per user interaction.
  Every run reads the session (\<open>st.session_state\<close>), the widgets of the page it renders and
  the database, and may write the session and the database. The modules \<open>database\<close>,
  \<open>auth\<close> and \<open>crypto_utils\<close> that \<open>app.py\<close> imports are not part of the sources at hand;
  their functions are modelled from the specification and marked so.
\<close>

subsection \<open>Rendering integers as Python's \<open>str\<close> does\<close>

definition digit_char :: "nat \<Rightarrow> char" where
  "digit_char d = ''0123456789'' ! d"

fun str_nat :: "nat \<Rightarrow> string" where
  "str_nat n = (if n < 10 then [digit_char n] else str_nat (n div 10) @ [digit_char (n mod 10)])"

declare str_nat.simps [simp del]

definition str_int :: "int \<Rightarrow> string" where
  "str_int i = (if i < 0 then CHR ''-'' # str_nat (nat (- i)) else str_nat (nat i))"

subsection \<open>Data\<close>

text \<open>The user dictionary a successful authentication returns: \<open>user['username']\<close>, \<open>user['role']\<close>.\<close>

record user =
  username :: string
  role :: string

text \<open>A row of the credential store (specification, section 3).\<close>

record credential =
  cred_username :: string
  cred_hash :: string
  cred_role :: string

text \<open>A patient row, with the columns \<open>app.py\<close> reads and writes.\<close>

record patient =
  patient_id :: int
  name :: string
  contact :: string
  diagnosis :: string
  anonymized_name :: string
  anonymized_contact :: string
  encrypted_name :: string
  encrypted_contact :: string
  date_added :: nat

text \<open>An audit log entry (specification, section 3).\<close>

record log_entry =
  actor :: string
  actor_role :: string
  action :: string
  detail :: string
  timestamp :: nat

text \<open>
  The cipher handle \<open>get_cipher()\<close> returns, as section 4.4 of the specification describes
  it: \<open>encrypt\<close> is a function of the plaintext (the key is fixed in the handle), and
  \<open>decrypt\<close> yields \<open>None\<close> where the cipher rejects its input. Nothing more is assumed
  of the two functions.
\<close>

record cipher =
  encrypt :: "string \<Rightarrow> string"
  decrypt :: "string \<Rightarrow> string option"

text \<open>
  The state a run works on: the session (\<open>st.session_state['user']\<close> and \<open>['page']\<close>), the
  process-wide cipher, and the three tables of the database. \<open>hash_password\<close> is the digest
  the credential store keeps passwords under.
\<close>

record state =
  session_user :: "user option"
  session_page :: string
  process_cipher :: cipher
  hash_password :: "string \<Rightarrow> string"
  users :: "credential list"
  patients :: "patient list"
  logs :: "log_entry list"

text \<open>
  What one run receives from outside: the clock reading and the values of the widgets.
  A button or form submit is \<open>True\<close> in the run its click triggers and \<open>False\<close> otherwise.
\<close>

record event =
  now :: nat
  login_username :: string
  login_password :: string
  login_submit :: bool
  nav_clicked :: "string list"
  logout_click :: bool
  view_mode :: string
  add_name :: string
  add_contact :: string
  add_diagnosis :: string
  add_submit :: bool
  upd_selected_id :: int
  upd_name :: string
  upd_contact :: string
  upd_diagnosis :: string
  upd_submit :: bool
  anonymize_click :: bool
  dec_selected_id :: int
  decrypt_click :: bool

text \<open>
  How a page function ends: it returns (\<open>Done\<close>), it calls \<open>st.rerun()\<close>, which stops the
  run and starts the script again (\<open>Rerun\<close>), or an exception leaves it (\<open>Raised\<close>).
  Writes made before a rerun or an exception stay.
\<close>

datatype error = NotFoundError | DecryptionError | StopIteration | TypeError

datatype outcome = Done | Rerun | Raised error

type_synonym result = "state \<times> outcome"

definition and_then :: "result \<Rightarrow> (state \<Rightarrow> result) \<Rightarrow> result" where
  "and_then r f = (case snd r of Done \<Rightarrow> f (fst r) | _ \<Rightarrow> r)"

subsection \<open>\<open>crypto_utils\<close>\<close>

text \<open>
  Modelled from the spec: \<open>mask_name\<close> of \<open>crypto_utils\<close> is missing. Section 4.3: a
  deterministic pseudonym derived solely from the numeric identifier, a fixed prefix plus
  the identifier. The specification does not give the prefix; \<open>mask_prefix\<close> stands for it
  and no proof depends on its text.
\<close>

definition mask_prefix :: string where
  "mask_prefix = ''ANON_''"

definition mask_name :: "int \<Rightarrow> string" where
  "mask_name pid = mask_prefix @ str_int pid"

text \<open>
  Modelled from the spec: \<open>mask_contact\<close> of \<open>crypto_utils\<close> is missing. Section 4.3: it
  keeps a fixed-length suffix of the contact and replaces the leading characters with a
  fixed mask character; an input shorter than the suffix comes back fully masked. The
  specification gives neither the suffix length nor the mask character; \<open>suffix_len\<close> and
  \<open>mask_char\<close> stand for them and no proof depends on their values.
\<close>

definition suffix_len :: nat where
  "suffix_len = 4"

definition mask_char :: char where
  "mask_char = CHR ''X''"

definition mask_contact :: "string \<Rightarrow> string" where
  "mask_contact c =
     (if suffix_len \<le> length c
      then replicate (length c - suffix_len) mask_char @ drop (length c - suffix_len) c
      else replicate (length c) mask_char)"

text \<open>
  Modelled from the spec: \<open>get_cipher\<close> of \<open>crypto_utils\<close> is missing. Section 4.4: it
  returns the process-wide cipher instance.
\<close>

definition get_cipher :: "state \<Rightarrow> cipher" where
  "get_cipher s = process_cipher s"

text \<open>
  Modelled from the spec: \<open>decrypt_field\<close> of \<open>crypto_utils\<close> is missing. Sections 4.4 and 7:
  decryption with the wrong key or of a corrupted ciphertext fails with a DecryptionError.
\<close>

definition decrypt_field :: "cipher \<Rightarrow> string \<Rightarrow> error + string" where
  "decrypt_field c x = (case decrypt c x of None \<Rightarrow> Inl DecryptionError | Some p \<Rightarrow> Inr p)"

subsection \<open>\<open>auth\<close>\<close>

text \<open>
  Modelled from the spec: \<open>authenticate_user\<close> of \<open>auth\<close> is missing. Section 4.1: it looks
  the username up in the credential store and returns nothing if it is absent or the
  password does not match; it has no side effect.
\<close>

definition authenticate_user :: "state \<Rightarrow> string \<Rightarrow> string \<Rightarrow> user option" where
  "authenticate_user s u p =
     (case find (\<lambda>r. cred_username r = u) (users s) of
        None \<Rightarrow> None
      | Some r \<Rightarrow>
          if cred_hash r = hash_password s p
          then Some \<lparr>username = cred_username r, role = cred_role r\<rparr>
          else None)"

text \<open>
  Modelled from the spec: \<open>check_role\<close> of \<open>auth\<close> is missing. Section 4.2: a pure
  predicate, true when the role of the session's user is among the required roles.
\<close>

definition check_role :: "state \<Rightarrow> string list \<Rightarrow> bool" where
  "check_role s required =
     (case session_user s of None \<Rightarrow> False | Some u \<Rightarrow> role u \<in> set required)"

text \<open>
  Modelled from the spec: \<open>log_user_action\<close> of \<open>auth\<close> is missing. Section 4.6: it appends
  an entry (username, role, action, detail) with a server-assigned timestamp, here the
  clock reading of the run. \<open>app.py\<close> calls it only while a user is in the session; with
  none there is nobody to record and the model appends nothing.
\<close>

definition audit_entry :: "user \<Rightarrow> string \<Rightarrow> string \<Rightarrow> nat \<Rightarrow> log_entry" where
  "audit_entry u act det t =
     \<lparr>actor = username u, actor_role = role u, action = act, detail = det, timestamp = t\<rparr>"

definition log_user_action :: "state \<Rightarrow> nat \<Rightarrow> string \<Rightarrow> string \<Rightarrow> state" where
  "log_user_action s t act det =
     (case session_user s of
        None \<Rightarrow> s
      | Some u \<Rightarrow> s\<lparr>logs := logs s @ [audit_entry u act det t]\<rparr>)"

subsection \<open>\<open>database\<close>\<close>

text \<open>
  Modelled from the spec: \<open>get_all_patients\<close> and \<open>get_all_logs\<close> of \<open>database\<close> are missing.
  Sections 4.5 and 4.6: full scans in insertion order.
\<close>

definition get_all_patients :: "state \<Rightarrow> patient list" where
  "get_all_patients s = patients s"

definition get_all_logs :: "state \<Rightarrow> log_entry list" where
  "get_all_logs s = logs s"

text \<open>
  Modelled from the spec: \<open>add_patient\<close> of \<open>database\<close> is missing. Section 4.5: it assigns
  a new unique id, persists the record and returns the id. \<open>app.py\<close> passes the derived
  fields in. The new id is one more than the largest id in the table.
\<close>

definition new_id :: "patient list \<Rightarrow> int" where
  "new_id ps = fold max (map patient_id ps) 0 + 1"

definition add_patient ::
  "string \<Rightarrow> string \<Rightarrow> string \<Rightarrow> string \<Rightarrow> string \<Rightarrow> string \<Rightarrow> string \<Rightarrow> nat \<Rightarrow> state
     \<Rightarrow> int \<times> state" where
  "add_patient nm ct dg an ac en ec t s =
     (let pid = new_id (patients s)
      in (pid,
          s\<lparr>patients := patients s @
            [\<lparr>patient_id = pid, name = nm, contact = ct, diagnosis = dg,
              anonymized_name = an, anonymized_contact = ac,
              encrypted_name = en, encrypted_contact = ec, date_added = t\<rparr>]\<rparr>))"

text \<open>
  Modelled from the spec: \<open>update_patient\<close> of \<open>database\<close> is missing. Section 4.5: it
  overwrites the raw and the anonymized fields of an existing id and fails with
  NotFoundError if the id is absent.
\<close>

definition update_row ::
  "int \<Rightarrow> string \<Rightarrow> string \<Rightarrow> string \<Rightarrow> string \<Rightarrow> string \<Rightarrow> patient \<Rightarrow> patient" where
  "update_row pid nm ct dg an ac p =
     (if patient_id p = pid
      then p\<lparr>name := nm, contact := ct, diagnosis := dg,
             anonymized_name := an, anonymized_contact := ac\<rparr>
      else p)"

definition update_patient ::
  "int \<Rightarrow> string \<Rightarrow> string \<Rightarrow> string \<Rightarrow> string \<Rightarrow> string \<Rightarrow> state \<Rightarrow> error + state" where
  "update_patient pid nm ct dg an ac s =
     (if pid \<in> set (map patient_id (patients s))
      then Inr (s\<lparr>patients := map (update_row pid nm ct dg an ac) (patients s)\<rparr>)
      else Inl NotFoundError)"

text \<open>
  Modelled from the spec: \<open>anonymize_all_patients\<close> of \<open>database\<close> is missing. Section 4.5:
  for every patient it recomputes the anonymized name and contact from the id and the
  contact, and the encrypted name and contact from the raw name and contact with the
  given cipher, and persists them in place.
\<close>

definition anonymize_row :: "cipher \<Rightarrow> patient \<Rightarrow> patient" where
  "anonymize_row c p =
     p\<lparr>anonymized_name := mask_name (patient_id p),
       anonymized_contact := mask_contact (contact p),
       encrypted_name := encrypt c (name p),
       encrypted_contact := encrypt c (contact p)\<rparr>"

definition anonymize_all_patients :: "cipher \<Rightarrow> state \<Rightarrow> state" where
  "anonymize_all_patients c s = s\<lparr>patients := map (anonymize_row c) (patients s)\<rparr>"

subsection \<open>\<open>app.py\<close>: helper functions\<close>

text \<open>\<open>logout\<close> (lines 34 to 40).\<close>

definition logout :: "event \<Rightarrow> state \<Rightarrow> result" where
  "logout ev s =
     (let s1 = (if session_user s \<noteq> None
                then log_user_action s (now ev) ''LOGOUT'' ''User logged out''
                else s)
      in (s1\<lparr>session_user := None, session_page := ''Login''\<rparr>, Rerun))"

subsection \<open>\<open>app.py\<close>: login page\<close>

text \<open>\<open>login_page\<close> (lines 55 to 91); the handler of the form is lines 68 to 81.\<close>

definition login_page :: "event \<Rightarrow> state \<Rightarrow> result" where
  "login_page ev s =
     (if login_submit ev then
        if login_username ev \<noteq> [] \<and> login_password ev \<noteq> [] then
          (case authenticate_user s (login_username ev) (login_password ev) of
             Some usr \<Rightarrow>
               (log_user_action (s\<lparr>session_user := Some usr, session_page := ''Dashboard''\<rparr>)
                  (now ev) ''LOGIN'' (''User '' @ login_username ev @ '' logged in''),
                Rerun)
           | None \<Rightarrow> (s, Done))
        else (s, Done)
      else (s, Done))"

subsection \<open>\<open>app.py\<close>: dashboard page\<close>

text \<open>
  \<open>dashboard_page\<close> (lines 95 to 122). It reads \<open>user['username']\<close> and \<open>user['role']\<close>
  first, which raises a TypeError when there is no user; everything it renders is
  output only, and its last statement writes the audit entry.
\<close>

definition dashboard_page :: "event \<Rightarrow> state \<Rightarrow> result" where
  "dashboard_page ev s =
     (case session_user s of
        None \<Rightarrow> (s, Raised TypeError)
      | Some u \<Rightarrow> (log_user_action s (now ev) ''VIEW_DASHBOARD'' ''Accessed dashboard'', Done))"

subsection \<open>\<open>app.py\<close>: patients page\<close>

text \<open>Tab 1, the patient list (lines 134 to 165).\<close>

definition patients_view_tab :: "user \<Rightarrow> event \<Rightarrow> state \<Rightarrow> result" where
  "patients_view_tab u ev s =
     (if get_all_patients s \<noteq> [] then
        if role u = ''admin'' then
          if view_mode ev = ''Raw Data''
          then (log_user_action s (now ev) ''VIEW_RAW_DATA'' ''Admin viewed raw patient data'',
                Done)
          else (s, Done)
        else if role u = ''doctor''
        then (log_user_action s (now ev) ''VIEW_ANONYMIZED_DATA''
                ''Doctor viewed anonymized data'', Done)
        else (s, Done)
      else (s, Done))"

text \<open>
  Tab 2, the add form. Lines 181 to 189 insert the new row with the pseudonym of the
  temporary id 999 and obtain the id the database assigned.
\<close>

definition add_flow_insert :: "event \<Rightarrow> state \<Rightarrow> int \<times> state" where
  "add_flow_insert ev s =
     (let c = get_cipher s;
          anon_name = mask_name 999;
          anon_contact = mask_contact (add_contact ev);
          enc_name = encrypt c (add_name ev);
          enc_contact = encrypt c (add_contact ev)
      in add_patient (add_name ev) (add_contact ev) (add_diagnosis ev)
           anon_name anon_contact enc_name enc_contact (now ev) s)"

text \<open>
  Tab 2 as a whole (lines 168 to 200): after the insert, line 192 updates the row with
  the pseudonym of the assigned id, line 194 writes the audit entry and line 196 reruns.
\<close>

definition patients_add_tab :: "user \<Rightarrow> event \<Rightarrow> state \<Rightarrow> result" where
  "patients_add_tab u ev s =
     (if role u \<in> set [''admin'', ''receptionist''] then
        if add_submit ev then
          if add_name ev \<noteq> [] \<and> add_contact ev \<noteq> [] \<and> add_diagnosis ev \<noteq> [] then
            (case add_flow_insert ev s of
               (pid, s1) \<Rightarrow>
                 (case update_patient pid (add_name ev) (add_contact ev) (add_diagnosis ev)
                         (mask_name pid) (mask_contact (add_contact ev)) s1 of
                    Inl e \<Rightarrow> (s1, Raised e)
                  | Inr s2 \<Rightarrow>
                      (log_user_action s2 (now ev) ''ADD_PATIENT''
                         (''Added patient ID '' @ str_int pid),
                       Rerun)))
          else (s, Done)
        else (s, Done)
      else (s, Done))"

text \<open>
  Tab 3, the update form (lines 203 to 231). \<open>next\<close> over the rows with the selected id
  raises StopIteration when there is none.
\<close>

definition patients_update_tab :: "user \<Rightarrow> event \<Rightarrow> state \<Rightarrow> result" where
  "patients_update_tab u ev s =
     (if role u \<in> set [''admin'', ''receptionist''] then
        if get_all_patients s \<noteq> [] then
          (case find (\<lambda>p. patient_id p = upd_selected_id ev) (get_all_patients s) of
             None \<Rightarrow> (s, Raised StopIteration)
           | Some selected_patient \<Rightarrow>
               if upd_submit ev then
                 (case update_patient (upd_selected_id ev) (upd_name ev) (upd_contact ev)
                         (upd_diagnosis ev) (mask_name (upd_selected_id ev))
                         (mask_contact (upd_contact ev)) s of
                    Inl e \<Rightarrow> (s, Raised e)
                  | Inr s1 \<Rightarrow>
                      (log_user_action s1 (now ev) ''UPDATE_PATIENT''
                         (''Updated patient ID '' @ str_int (upd_selected_id ev)),
                       Rerun))
               else (s, Done))
        else (s, Done)
      else (s, Done))"

text \<open>\<open>patients_page\<close> (lines 126 to 231): the three tabs in order.\<close>

definition patients_page :: "event \<Rightarrow> state \<Rightarrow> result" where
  "patients_page ev s =
     (case session_user s of
        None \<Rightarrow> (s, Raised TypeError)
      | Some u \<Rightarrow>
          and_then (and_then (patients_view_tab u ev s) (patients_add_tab u ev))
            (patients_update_tab u ev))"

subsection \<open>\<open>app.py\<close>: anonymization page\<close>

text \<open>Column 1, the batch anonymization button (lines 246 to 253).\<close>

definition anonymize_column :: "event \<Rightarrow> state \<Rightarrow> result" where
  "anonymize_column ev s =
     (if anonymize_click ev
      then (log_user_action (anonymize_all_patients (get_cipher s) s) (now ev)
              ''ANONYMIZE_ALL'' ''Batch anonymization applied with encryption'',
            Rerun)
      else (s, Done))"

text \<open>Column 2, decrypt and view (lines 255 to 273).\<close>

definition decrypt_column :: "event \<Rightarrow> state \<Rightarrow> result" where
  "decrypt_column ev s =
     (if get_all_patients s \<noteq> [] then
        if decrypt_click ev then
          (case find (\<lambda>p. patient_id p = dec_selected_id ev) (get_all_patients s) of
             None \<Rightarrow> (s, Raised StopIteration)
           | Some p \<Rightarrow>
               (case decrypt_field (get_cipher s) (encrypted_name p) of
                  Inl e \<Rightarrow> (s, Raised e)
                | Inr decrypted_name \<Rightarrow>
                    (case decrypt_field (get_cipher s) (encrypted_contact p) of
                       Inl e \<Rightarrow> (s, Raised e)
                     | Inr decrypted_contact \<Rightarrow>
                         (log_user_action s (now ev) ''DECRYPT_DATA''
                            (''Decrypted patient ID '' @ str_int (dec_selected_id ev)),
                          Done))))
        else (s, Done)
      else (s, Done))"

text \<open>\<open>anonymization_page\<close> (lines 235 to 273).\<close>

definition anonymization_page :: "event \<Rightarrow> state \<Rightarrow> result" where
  "anonymization_page ev s =
     (if \<not> check_role s [''admin''] then (s, Done)
      else and_then (anonymize_column ev s) (decrypt_column ev))"

subsection \<open>\<open>app.py\<close>: audit logs page\<close>

text \<open>
  \<open>audit_logs_page\<close> (lines 277 to 312). The table, the export and the filters are output
  only; the audit entry of line 310 is written inside the branch \<open>if logs\<close>.
\<close>

definition audit_logs_page :: "event \<Rightarrow> state \<Rightarrow> result" where
  "audit_logs_page ev s =
     (if \<not> check_role s [''admin''] then (s, Done)
      else if get_all_logs s \<noteq> []
      then (log_user_action s (now ev) ''VIEW_AUDIT_LOG'' ''Accessed audit logs'', Done)
      else (s, Done))"

subsection \<open>\<open>app.py\<close>: the router\<close>

text \<open>The sidebar's pages, in the order of the dictionary (lines 329 to 336).\<close>

definition nav_pages :: "user \<Rightarrow> string list" where
  "nav_pages u =
     [''Dashboard'', ''Patients''] @
     (if role u = ''admin'' then [''Anonymization'', ''Audit Logs''] else [])"

text \<open>
  \<open>main\<close> (lines 316 to 377): without a user the login page; otherwise the sidebar, whose
  navigation buttons and logout button rerun before any page is rendered, and then the
  page of the session.
\<close>

definition main :: "event \<Rightarrow> state \<Rightarrow> result" where
  "main ev s =
     (case session_user s of
        None \<Rightarrow> login_page ev s
      | Some u \<Rightarrow>
          (case find (\<lambda>p. p \<in> set (nav_clicked ev)) (nav_pages u) of
             Some p \<Rightarrow> (s\<lparr>session_page := p\<rparr>, Rerun)
           | None \<Rightarrow>
               if logout_click ev then logout ev s
               else if session_page s = ''Dashboard'' then dashboard_page ev s
               else if session_page s = ''Patients'' then patients_page ev s
               else if session_page s = ''Anonymization'' then anonymization_page ev s
               else if session_page s = ''Audit Logs'' then audit_logs_page ev s
               else (s, Done)))"



subsection \<open>Notions used to state the properties\<close>

text \<open>The row a completed add flow leaves in the table.\<close>

definition added_row :: "event \<Rightarrow> state \<Rightarrow> patient" where
  "added_row ev s =
     \<lparr>patient_id = new_id (patients s), name = add_name ev, contact = add_contact ev,
      diagnosis = add_diagnosis ev, anonymized_name = mask_name (new_id (patients s)),
      anonymized_contact = mask_contact (add_contact ev),
      encrypted_name = encrypt (process_cipher s) (add_name ev),
      encrypted_contact = encrypt (process_cipher s) (add_contact ev),
      date_added = now ev\<rparr>"



text \<open>
  What a run is due to record, written from the words of the specification and not from
  the handlers: the operations that succeed in the run, and the page renders that are
  logged. A login succeeds when the form is submitted with both fields filled and the
  credentials are accepted.
\<close>

definition login_succeeds :: "event \<Rightarrow> state \<Rightarrow> bool" where
  "login_succeeds ev s \<longleftrightarrow>
     login_submit ev \<and> login_username ev \<noteq> [] \<and> login_password ev \<noteq> [] \<and>
     authenticate_user s (login_username ev) (login_password ev) \<noteq> None"

text \<open>A sidebar navigation button of the user's menu is pressed.\<close>

definition nav_pressed :: "user \<Rightarrow> event \<Rightarrow> bool" where
  "nav_pressed u ev \<longleftrightarrow> list_ex (\<lambda>p. p \<in> set (nav_clicked ev)) (nav_pages u)"

text \<open>The roles the capability table of section 4.2 lets add and update patients.\<close>

definition may_write :: "user \<Rightarrow> bool" where
  "may_write u \<longleftrightarrow> role u = ''admin'' \<or> role u = ''receptionist''"

text \<open>
  An add succeeds for a writer who submits all three fields; an update, for a writer who
  submits the form for an id that is on file; a decryption, when the button is pressed
  for a patient on file and the cipher accepts both stored ciphertexts.
\<close>

definition add_succeeds :: "user \<Rightarrow> event \<Rightarrow> bool" where
  "add_succeeds u ev \<longleftrightarrow>
     may_write u \<and> add_submit ev \<and> add_name ev \<noteq> [] \<and> add_contact ev \<noteq> [] \<and>
     add_diagnosis ev \<noteq> []"

definition update_succeeds :: "user \<Rightarrow> event \<Rightarrow> state \<Rightarrow> bool" where
  "update_succeeds u ev s \<longleftrightarrow>
     may_write u \<and> upd_submit ev \<and> upd_selected_id ev \<in> set (map patient_id (patients s))"

definition decrypt_succeeds :: "event \<Rightarrow> state \<Rightarrow> bool" where
  "decrypt_succeeds ev s \<longleftrightarrow>
     decrypt_click ev \<and>
     (case find (\<lambda>p. patient_id p = dec_selected_id ev) (patients s) of
        None \<Rightarrow> False
      | Some p \<Rightarrow>
          decrypt (process_cipher s) (encrypted_name p) \<noteq> None \<and>
          decrypt (process_cipher s) (encrypted_contact p) \<noteq> None)"

text \<open>
  The sensitive read of the patient list: the raw view of an admin, the anonymized view of
  a doctor; there is nothing to view while the table is empty.
\<close>

definition list_view :: "user \<Rightarrow> event \<Rightarrow> state \<Rightarrow> string list" where
  "list_view u ev s =
     (if patients s \<noteq> [] \<and> role u = ''admin'' \<and> view_mode ev = ''Raw Data''
      then [''VIEW_RAW_DATA'']
      else if patients s \<noteq> [] \<and> role u = ''doctor'' then [''VIEW_ANONYMIZED_DATA'']
      else [])"

text \<open>
  The actions of the operations that succeed in one run, in the order of the page. A
  press of a navigation button only changes the page; an add that succeeds ends the run
  before the update form is reached.
\<close>

definition operations :: "event \<Rightarrow> state \<Rightarrow> string list" where
  "operations ev s =
     (case session_user s of
        None \<Rightarrow> if login_succeeds ev s then [''LOGIN''] else []
      | Some u \<Rightarrow>
          if nav_pressed u ev then []
          else if logout_click ev then [''LOGOUT'']
          else if session_page s = ''Patients'' then
            list_view u ev s @
            (if add_succeeds u ev then [''ADD_PATIENT'']
             else if update_succeeds u ev s then [''UPDATE_PATIENT'']
             else [])
          else if session_page s = ''Anonymization'' \<and> role u = ''admin'' then
            (if anonymize_click ev then [''ANONYMIZE_ALL'']
             else if decrypt_succeeds ev s then [''DECRYPT_DATA'']
             else [])
          else [])"

text \<open>The logged renders of one run: the dashboard, and the audit log when it is not empty.\<close>

definition renders :: "event \<Rightarrow> state \<Rightarrow> string list" where
  "renders ev s =
     (case session_user s of
        None \<Rightarrow> []
      | Some u \<Rightarrow>
          if nav_pressed u ev \<or> logout_click ev then []
          else if session_page s = ''Dashboard'' then [''VIEW_DASHBOARD'']
          else if session_page s = ''Audit Logs'' \<and> role u = ''admin'' \<and> logs s \<noteq> []
          then [''VIEW_AUDIT_LOG'']
          else [])"

text \<open>
  A sequence of runs, one per event, and the numbers of successful operations and of
  logged renders along it.
\<close>

fun run_all :: "event list \<Rightarrow> state \<Rightarrow> state" where
  "run_all [] s = s"
| "run_all (ev # evs) s = run_all evs (fst (main ev s))"




subsection \<open>Example data\<close>

text \<open>
  A freshly initialised system with the three demo accounts of the login page
  (lines 85 to 88), nobody logged in and empty tables. The digest and the cipher of the
  examples are stand-ins (string reversal); the theorems hold for every digest and cipher.
\<close>

definition demo_cipher :: cipher where
  "demo_cipher = \<lparr>encrypt = rev, decrypt = (\<lambda>x. Some (rev x))\<rparr>"

definition demo_state :: state where
  "demo_state =
     \<lparr>session_user = None, session_page = ''Login'', process_cipher = demo_cipher,
      hash_password = rev,
      users =
        [\<lparr>cred_username = ''admin'', cred_hash = rev ''admin123'', cred_role = ''admin''\<rparr>,
         \<lparr>cred_username = ''dr_bob'', cred_hash = rev ''doc123'', cred_role = ''doctor''\<rparr>,
         \<lparr>cred_username = ''alice_recep'', cred_hash = rev ''rec123'',
           cred_role = ''receptionist''\<rparr>],
      patients = [], logs = []\<rparr>"

text \<open>A run in which nothing is entered or pressed, at clock reading 0.\<close>

definition idle :: event where
  "idle =
     \<lparr>now = 0, login_username = [], login_password = [], login_submit = False,
      nav_clicked = [], logout_click = False, view_mode = ''Anonymized'',
      add_name = [], add_contact = [], add_diagnosis = [], add_submit = False,
      upd_selected_id = 0, upd_name = [], upd_contact = [], upd_diagnosis = [],
      upd_submit = False, anonymize_click = False, dec_selected_id = 0,
      decrypt_click = False\<rparr>"

definition demo_login :: "string \<Rightarrow> string \<Rightarrow> event" where
  "demo_login u p = idle\<lparr>login_username := u, login_password := p, login_submit := True\<rparr>"

text \<open>The add form filled with scenario A of the specification and submitted.\<close>

definition demo_add :: event where
  "demo_add =
     idle\<lparr>now := 5, add_name := ''Jane Doe'', add_contact := ''5551234567'',
          add_diagnosis := ''flu'', add_submit := True\<rparr>"

definition demo_user :: "string \<Rightarrow> string \<Rightarrow> user" where
  "demo_user u r = \<lparr>username = u, role = r\<rparr>"

text \<open>A session of the given user on the given page, over the demo database.\<close>

definition demo_session :: "user \<Rightarrow> string \<Rightarrow> state" where
  "demo_session u pg = demo_state\<lparr>session_user := Some u, session_page := pg\<rparr>"

definition demo_patient :: patient where
  "demo_patient =
     \<lparr>patient_id = 1, name = ''Jane Doe'', contact = ''5551234567'', diagnosis = ''flu'',
      anonymized_name = ''stale'', anonymized_contact = ''stale'',
      encrypted_name = [], encrypted_contact = [], date_added = 5\<rparr>"





text \<open>
  A press of a navigation button, and a visit of the audit log on the fresh system: the
  admin logs in, the script reruns and renders the dashboard, the admin presses the
  button of the audit log page.
\<close>

definition demo_nav :: "string \<Rightarrow> event" where
  "demo_nav pg = idle\<lparr>nav_clicked := [pg]\<rparr>"

definition demo_visit :: "event list" where
  "demo_visit = [demo_login ''admin'' ''admin123'', idle, demo_nav ''Audit Logs'']"

section \<open>Properties\<close>

subsection \<open>Rendering integers\<close>

lemma digit_char_inj: "a < 10 \<Longrightarrow> b < 10 \<Longrightarrow> digit_char a = digit_char b \<Longrightarrow> a = b"
proof -
  assume a: "a < 10" and b: "b < 10" and e: "digit_char a = digit_char b"
  have d: "distinct ''0123456789''" by simp
  have l: "length ''0123456789'' = 10" by simp
  from e show "a = b" unfolding digit_char_def
    using nth_eq_iff_index_eq [OF d, of a b] a b l by simp
qed

lemma digit_char_not_minus: "d < 10 \<Longrightarrow> digit_char d \<noteq> CHR ''-''"
proof -
  assume "d < 10"
  then have "digit_char d \<in> set ''0123456789''"
    unfolding digit_char_def by (intro nth_mem) simp
  then show ?thesis by auto
qed

lemma str_nat_not_Nil: "str_nat n \<noteq> []"
  by (subst str_nat.simps) simp

lemma str_nat_inj: "str_nat n = str_nat m \<Longrightarrow> n = m"
proof (induction n arbitrary: m rule: str_nat.induct)
  case (1 n)
  show ?case
  proof (cases "n < 10")
    case True
    show ?thesis
    proof (cases "m < 10")
      case mt: True
      from "1.prems" True mt have "digit_char n = digit_char m"
        by (simp add: str_nat.simps [of n] str_nat.simps [of m])
      with True mt show ?thesis by (rule digit_char_inj)
    next
      case mf: False
      from "1.prems" True mf have "str_nat (m div 10) = []"
        by (simp add: str_nat.simps [of n] str_nat.simps [of m] Cons_eq_append_conv)
      then show ?thesis by (simp add: str_nat_not_Nil)
    qed
  next
    case False
    show ?thesis
    proof (cases "m < 10")
      case mt: True
      from "1.prems" False mt have "str_nat (n div 10) = []"
        by (simp add: str_nat.simps [of n] str_nat.simps [of m] append_eq_Cons_conv)
      then show ?thesis by (simp add: str_nat_not_Nil)
    next
      case mf: False
      from "1.prems" False mf
      have e: "str_nat (n div 10) = str_nat (m div 10)" and d: "digit_char (n mod 10) = digit_char (m mod 10)"
        by (simp_all add: str_nat.simps [of n] str_nat.simps [of m])
      from "1.IH" [OF False e] have q: "n div 10 = m div 10" .
      have r: "n mod 10 = m mod 10" by (rule digit_char_inj [OF _ _ d]) simp_all
      from q r show ?thesis by (metis div_mult_mod_eq)
    qed
  qed
qed

lemma hd_str_nat: "hd (str_nat n) \<noteq> CHR ''-''"
proof (induction n rule: str_nat.induct)
  case (1 n)
  show ?case
  proof (cases "n < 10")
    case True
    then show ?thesis by (simp add: str_nat.simps [of n] digit_char_not_minus)
  next
    case False
    with "1.IH" show ?thesis
      by (simp add: str_nat.simps [of n] hd_append str_nat_not_Nil)
  qed
qed

lemma str_int_inj: "str_int i = str_int j \<Longrightarrow> i = j"
proof -
  assume e: "str_int i = str_int j"
  have neg: "\<And>a b. str_nat a \<noteq> CHR ''-'' # str_nat b"
  proof
    fix a b assume "str_nat a = CHR ''-'' # str_nat b"
    then have "hd (str_nat a) = CHR ''-''" by simp
    then show False by (simp add: hd_str_nat)
  qed
  show "i = j"
  proof (cases "i < 0")
    case True
    show ?thesis
    proof (cases "j < 0")
      case jt: True
      from e True jt have "nat (- i) = nat (- j)" by (simp add: str_int_def str_nat_inj)
      with True jt show ?thesis by simp
    next
      case jf: False
      from e True jf neg [of "nat j" "nat (- i)"] show ?thesis by (simp add: str_int_def)
    qed
  next
    case False
    show ?thesis
    proof (cases "j < 0")
      case jt: True
      from e False jt neg [of "nat i" "nat (- j)"] show ?thesis by (simp add: str_int_def)
    next
      case jf: False
      from e False jf have "nat i = nat j" by (auto simp add: str_int_def dest: str_nat_inj)
      with False jf show ?thesis by simp
    qed
  qed
qed

subsection \<open>The field masker\<close>

lemma mask_name_eq_iff: "(mask_name i = mask_name j) = (i = j)"
  by (auto simp add: mask_name_def dest: str_int_inj)

subsection \<open>The audit log writer\<close>

lemma patients_log_user_action [simp]: "patients (log_user_action s t a d) = patients s"
  by (simp add: log_user_action_def split: option.split)

lemma session_user_log_user_action [simp]: "session_user (log_user_action s t a d) = session_user s"
  by (simp add: log_user_action_def split: option.split)

lemma process_cipher_log_user_action [simp]: "process_cipher (log_user_action s t a d) = process_cipher s"
  by (simp add: log_user_action_def split: option.split)

lemma logs_log_user_action_None [simp]:
  "session_user s = None \<Longrightarrow> log_user_action s t a d = s"
  by (simp add: log_user_action_def)

lemma log_user_action_Some:
  "session_user s = Some u \<Longrightarrow> log_user_action s t a d = s\<lparr>logs := logs s @ [audit_entry u a d t]\<rparr>"
  by (simp add: log_user_action_def)

subsection \<open>Batch anonymization\<close>

lemma anonymize_row_idem: "anonymize_row c (anonymize_row c p) = anonymize_row c p"
  by (simp add: anonymize_row_def)

lemma str_int_1: "str_int 1 = ''1''"
  by (simp add: str_int_def str_nat.simps digit_char_def)

subsection \<open>Sequencing\<close>

lemma and_then_Done [simp]: "and_then (s, Done) f = f s"
  by (simp add: and_then_def)

lemma and_then_Rerun [simp]: "and_then (s, Rerun) f = (s, Rerun)"
  by (simp add: and_then_def)

lemma and_then_Raised [simp]: "and_then (s, Raised e) f = (s, Raised e)"
  by (simp add: and_then_def)

subsection \<open>An append-only, time-stamped log\<close>









subsection \<open>Fresh identifiers\<close>

lemma fold_max_ge: "(a::int) \<le> fold max xs a"
proof (induction xs arbitrary: a)
  case Nil
  show ?case by simp
next
  case (Cons x xs)
  have "a \<le> max x a" by simp
  also have "\<dots> \<le> fold max xs (max x a)" by (rule Cons.IH)
  finally show ?case by simp
qed

lemma fold_max_mem: "(x::int) \<in> set xs \<Longrightarrow> x \<le> fold max xs a"
proof (induction xs arbitrary: a)
  case Nil
  then show ?case by simp
next
  case (Cons y ys)
  show ?case
  proof (cases "x = y")
    case True
    have "x \<le> max y a" using True by simp
    also have "\<dots> \<le> fold max ys (max y a)" by (rule fold_max_ge)
    finally show ?thesis by simp
  next
    case False
    with Cons.prems have "x \<in> set ys" by simp
    then show ?thesis by (simp add: Cons.IH)
  qed
qed

lemma new_id_fresh: "p \<in> set ps \<Longrightarrow> patient_id p < new_id ps"
proof -
  assume "p \<in> set ps"
  then have "patient_id p \<in> set (map patient_id ps)" by simp
  then have "patient_id p \<le> fold max (map patient_id ps) 0" by (rule fold_max_mem)
  then show ?thesis by (simp add: new_id_def)
qed

lemma update_row_other: "patient_id p \<noteq> pid \<Longrightarrow> update_row pid nm ct dg an ac p = p"
  by (simp add: update_row_def)

lemma map_update_row_fresh:
  "\<forall>p\<in>set ps. patient_id p \<noteq> pid \<Longrightarrow> map (update_row pid nm ct dg an ac) ps = ps"
  by (induction ps) (simp_all add: update_row_other)

lemma map_update_row_new_id:
  "map (update_row (new_id ps) nm ct dg an ac) ps = ps"
  by (rule map_update_row_fresh) (auto dest: new_id_fresh)

subsection \<open>Login, logout and dashboard\<close>

lemma login_success:
  assumes "login_submit ev" and "login_username ev \<noteq> []" and "login_password ev \<noteq> []"
    and "authenticate_user s (login_username ev) (login_password ev) = Some usr"
  shows "login_page ev s =
     (s\<lparr>session_user := Some usr, session_page := ''Dashboard'',
        logs := logs s @ [audit_entry usr ''LOGIN''
                            (''User '' @ login_username ev @ '' logged in'') (now ev)]\<rparr>, Rerun)"
  using assms by (simp add: login_page_def log_user_action_def)

lemma login_failure:
  assumes "\<not> login_submit ev \<or> login_username ev = [] \<or> login_password ev = [] \<or>
     authenticate_user s (login_username ev) (login_password ev) = None"
  shows "login_page ev s = (s, Done)"
  using assms by (auto simp add: login_page_def)


lemma logout_eq:
  "session_user s = Some u \<Longrightarrow>
   logout ev s =
     (s\<lparr>logs := logs s @ [audit_entry u ''LOGOUT'' ''User logged out'' (now ev)],
        session_user := None, session_page := ''Login''\<rparr>, Rerun)"
  by (simp add: logout_def log_user_action_def)



subsection \<open>The patients page\<close>

lemma view_tab_eq:
  "patients_view_tab u ev s =
     (if patients s \<noteq> [] \<and> role u = ''admin'' \<and> view_mode ev = ''Raw Data''
      then log_user_action s (now ev) ''VIEW_RAW_DATA'' ''Admin viewed raw patient data''
      else if patients s \<noteq> [] \<and> role u = ''doctor''
      then log_user_action s (now ev) ''VIEW_ANONYMIZED_DATA'' ''Doctor viewed anonymized data''
      else s, Done)"
  by (simp add: patients_view_tab_def get_all_patients_def)

lemma view_tab_patients [simp]: "patients (fst (patients_view_tab u ev s)) = patients s"
  by (simp add: view_tab_eq)

lemma view_tab_cipher [simp]: "process_cipher (fst (patients_view_tab u ev s)) = process_cipher s"
  by (simp add: view_tab_eq)

lemma view_tab_session [simp]: "session_user (fst (patients_view_tab u ev s)) = session_user s"
  by (simp add: view_tab_eq)

lemma view_tab_Done: "patients_view_tab u ev s = (fst (patients_view_tab u ev s), Done)"
  by (simp add: view_tab_eq)

lemma and_then_view:
  "and_then (patients_view_tab u ev s) f = f (fst (patients_view_tab u ev s))"
  by (subst view_tab_Done) simp

lemma patients_page_eq:
  "session_user s = Some u \<Longrightarrow>
   patients_page ev s =
     and_then (patients_add_tab u ev (fst (patients_view_tab u ev s))) (patients_update_tab u ev)"
  by (simp add: patients_page_def and_then_view)


lemma add_flow_insert_eq:
  "add_flow_insert ev s =
     (new_id (patients s),
      s\<lparr>patients := patients s @ [(added_row ev s)\<lparr>anonymized_name := mask_name 999\<rparr>]\<rparr>)"
  by (simp add: add_flow_insert_def add_patient_def get_cipher_def Let_def added_row_def)

lemma add_tab_success:
  assumes "role u \<in> {''admin'', ''receptionist''}" and "add_submit ev"
    and "add_name ev \<noteq> []" and "add_contact ev \<noteq> []" and "add_diagnosis ev \<noteq> []"
  shows "patients_add_tab u ev s =
     (log_user_action (s\<lparr>patients := patients s @ [added_row ev s]\<rparr>) (now ev) ''ADD_PATIENT''
        (''Added patient ID '' @ str_int (new_id (patients s))), Rerun)"
  using assms
  by (simp add: patients_add_tab_def add_flow_insert_eq update_patient_def
      map_update_row_new_id update_row_def added_row_def)

lemma added_row_view [simp]: "added_row ev (fst (patients_view_tab u ev s)) = added_row ev s"
  by (simp add: added_row_def)

lemma str_int_999: "str_int 999 = ''999''"
  by (simp add: str_int_def str_nat.simps digit_char_def)

lemma add_tab_failure:
  assumes "role u \<notin> {''admin'', ''receptionist''} \<or> \<not> add_submit ev \<or> add_name ev = [] \<or>
     add_contact ev = [] \<or> add_diagnosis ev = []"
  shows "patients_add_tab u ev s = (s, Done)"
  using assms by (auto simp add: patients_add_tab_def)


lemma find_id_mem:
  "find (\<lambda>p. patient_id p = i) ps = Some q \<Longrightarrow> i \<in> set (map patient_id ps)"
  by (induction ps) (auto split: if_splits)

lemma update_tab_success:
  assumes "role u \<in> {''admin'', ''receptionist''}" and "upd_submit ev"
    and "find (\<lambda>p. patient_id p = upd_selected_id ev) (patients s) = Some q"
  shows "patients_update_tab u ev s =
     (log_user_action
        (s\<lparr>patients := map (update_row (upd_selected_id ev) (upd_name ev) (upd_contact ev)
             (upd_diagnosis ev) (mask_name (upd_selected_id ev))
             (mask_contact (upd_contact ev))) (patients s)\<rparr>)
        (now ev) ''UPDATE_PATIENT'' (''Updated patient ID '' @ str_int (upd_selected_id ev)),
      Rerun)"
proof -
  from assms(3) have ne: "patients s \<noteq> []" by auto
  from assms(3) have mem: "upd_selected_id ev \<in> set (map patient_id (patients s))"
    by (rule find_id_mem)
  show ?thesis
    using assms ne mem
    by (simp add: patients_update_tab_def get_all_patients_def update_patient_def)
qed



lemma add_tab_denied:
  "role u \<notin> set [''admin'', ''receptionist''] \<Longrightarrow> patients_add_tab u ev s = (s, Done)"
  by (simp add: patients_add_tab_def)

lemma update_tab_denied:
  "role u \<notin> set [''admin'', ''receptionist''] \<Longrightarrow> patients_update_tab u ev s = (s, Done)"
  by (simp add: patients_update_tab_def)

lemma patients_page_denied:
  "session_user s = Some u \<Longrightarrow> role u \<notin> set [''admin'', ''receptionist''] \<Longrightarrow>
   patients_page ev s = patients_view_tab u ev s"
  by (simp add: patients_page_def and_then_view add_tab_denied update_tab_denied
      view_tab_Done [symmetric])

lemma patients_logout [simp]: "patients (fst (logout ev s)) = patients s"
  by (simp add: logout_def)

lemma patients_dashboard [simp]: "patients (fst (dashboard_page ev s)) = patients s"
  by (simp add: dashboard_page_def split: option.split)

lemma patients_audit [simp]: "patients (fst (audit_logs_page ev s)) = patients s"
  by (simp add: audit_logs_page_def)

lemma anonymization_denied:
  "\<not> check_role s [''admin''] \<Longrightarrow> anonymization_page ev s = (s, Done)"
  by (simp add: anonymization_page_def)

subsection \<open>The anonymization and audit log pages, and the router\<close>

lemma check_role_admin:
  "session_user s = Some u \<Longrightarrow> check_role s [''admin''] = (role u = ''admin'')"
  by (simp add: check_role_def)

lemma anonymize_success:
  assumes "check_role s [''admin'']" and "anonymize_click ev"
  shows "anonymization_page ev s =
     (log_user_action (anonymize_all_patients (get_cipher s) s) (now ev) ''ANONYMIZE_ALL''
        ''Batch anonymization applied with encryption'', Rerun)"
  using assms by (simp add: anonymization_page_def anonymize_column_def)

lemma logs_anonymize_all [simp]: "logs (anonymize_all_patients c s) = logs s"
  by (simp add: anonymize_all_patients_def)

lemma session_user_anonymize_all [simp]:
  "session_user (anonymize_all_patients c s) = session_user s"
  by (simp add: anonymize_all_patients_def)


lemma decrypt_failure:
  assumes "check_role s [''admin'']" and "\<not> anonymize_click ev" and "decrypt_click ev"
    and "find (\<lambda>p. patient_id p = dec_selected_id ev) (patients s) = Some p"
    and "decrypt (process_cipher s) (encrypted_name p) = None \<or>
         decrypt (process_cipher s) (encrypted_contact p) = None"
  shows "anonymization_page ev s = (s, Raised DecryptionError)"
proof -
  from assms(4) have ne: "patients s \<noteq> []" by auto
  show ?thesis
    using assms ne
    by (auto simp add: anonymization_page_def anonymize_column_def decrypt_column_def
        get_all_patients_def get_cipher_def decrypt_field_def split: option.split)
qed






lemma find_never: "find (\<lambda>p. False) xs = None"
  by (induction xs) simp_all

lemma demo_auth_admin:
  "authenticate_user demo_state ''admin'' ''admin123'' = Some (demo_user ''admin'' ''admin'')"
  by (simp add: authenticate_user_def demo_state_def demo_user_def)

subsection \<open>What a run appends\<close>

lemma actions_log_user_action:
  "session_user s = Some u \<Longrightarrow>
   map action (logs (log_user_action s t a d)) = map action (logs s) @ [a]"
  by (simp add: log_user_action_Some audit_entry_def)

lemma login_actions:
  "map action (logs (fst (login_page ev s))) =
     map action (logs s) @ (if login_succeeds ev s then [''LOGIN''] else [])"
  by (auto simp add: login_page_def login_succeeds_def log_user_action_def audit_entry_def
      split: option.split)

lemma logout_actions:
  "session_user s = Some u \<Longrightarrow>
   map action (logs (fst (logout ev s))) = map action (logs s) @ [''LOGOUT'']"
  by (simp add: logout_eq audit_entry_def)

lemma dashboard_actions:
  "session_user s = Some u \<Longrightarrow>
   map action (logs (fst (dashboard_page ev s))) = map action (logs s) @ [''VIEW_DASHBOARD'']"
  by (simp add: dashboard_page_def actions_log_user_action)

lemma view_actions:
  "session_user s = Some u \<Longrightarrow>
   map action (logs (fst (patients_view_tab u ev s))) = map action (logs s) @ list_view u ev s"
  by (simp add: view_tab_eq list_view_def actions_log_user_action)

lemma add_actions:
  "session_user s = Some u \<Longrightarrow> add_succeeds u ev \<Longrightarrow>
   \<exists>s'. patients_add_tab u ev s = (s', Rerun) \<and>
        map action (logs s') = map action (logs s) @ [''ADD_PATIENT'']"
  by (simp add: add_tab_success add_succeeds_def may_write_def actions_log_user_action)

lemma add_nothing:
  "\<not> add_succeeds u ev \<Longrightarrow> patients_add_tab u ev s = (s, Done)"
  by (rule add_tab_failure) (auto simp add: add_succeeds_def may_write_def)

lemma find_id_None:
  "(find (\<lambda>p. patient_id p = i) ps = None) = (i \<notin> set (map patient_id ps))"
  by (induction ps) auto

lemma update_actions:
  "session_user s = Some u \<Longrightarrow>
   map action (logs (fst (patients_update_tab u ev s))) =
     map action (logs s) @ (if update_succeeds u ev s then [''UPDATE_PATIENT''] else [])"
proof (cases "find (\<lambda>p. patient_id p = upd_selected_id ev) (patients s)")
  case None
  then have "\<not> update_succeeds u ev s"
    by (simp add: update_succeeds_def find_id_None)
  then show ?thesis using None
    by (simp add: patients_update_tab_def get_all_patients_def)
next
  case (Some q)
  assume su: "session_user s = Some u"
  from Some have mem: "upd_selected_id ev \<in> set (map patient_id (patients s))"
    by (rule find_id_mem)
  show ?thesis
  proof (cases "role u \<in> {''admin'', ''receptionist''} \<and> upd_submit ev")
    case True
    then have "update_succeeds u ev s" using mem
      by (simp add: update_succeeds_def may_write_def)
    then show ?thesis using True su
      by (simp add: update_tab_success [OF _ _ Some] actions_log_user_action)
  next
    case False
    then have "\<not> update_succeeds u ev s"
      by (auto simp add: update_succeeds_def may_write_def)
    then show ?thesis using False
      by (auto simp add: patients_update_tab_def get_all_patients_def Some)
  qed
qed

lemma update_succeeds_view [simp]:
  "update_succeeds u ev (fst (patients_view_tab u ev s)) = update_succeeds u ev s"
  by (simp add: update_succeeds_def)

lemma patients_page_actions:
  assumes su: "session_user s = Some u"
  shows "map action (logs (fst (patients_page ev s))) =
     map action (logs s) @ list_view u ev s @
       (if add_succeeds u ev then [''ADD_PATIENT'']
        else if update_succeeds u ev s then [''UPDATE_PATIENT'']
        else [])"
proof -
  let ?v = "fst (patients_view_tab u ev s)"
  have sv: "session_user ?v = Some u" using su by simp
  have page: "patients_page ev s = and_then (patients_add_tab u ev ?v) (patients_update_tab u ev)"
    using su by (rule patients_page_eq)
  show ?thesis
  proof (cases "add_succeeds u ev")
    case True
    from add_actions [OF sv True] obtain s' where
      a: "patients_add_tab u ev ?v = (s', Rerun)"
      and b: "map action (logs s') = map action (logs ?v) @ [''ADD_PATIENT'']"
      by blast
    show ?thesis
      by (simp add: page a b True view_actions [OF su])
  next
    case False
    show ?thesis
      by (simp add: page add_nothing [OF False] False update_actions [OF sv]
          view_actions [OF su])
  qed
qed

lemma decrypt_column_actions:
  "session_user s = Some u \<Longrightarrow>
   map action (logs (fst (decrypt_column ev s))) =
     map action (logs s) @ (if decrypt_succeeds ev s then [''DECRYPT_DATA''] else [])"
  by (auto simp add: decrypt_column_def decrypt_succeeds_def get_all_patients_def
      get_cipher_def decrypt_field_def actions_log_user_action
      split: option.split)

lemma anonymization_actions:
  assumes su: "session_user s = Some u"
  shows "map action (logs (fst (anonymization_page ev s))) =
     map action (logs s) @
       (if role u = ''admin'' then
          if anonymize_click ev then [''ANONYMIZE_ALL'']
          else if decrypt_succeeds ev s then [''DECRYPT_DATA'']
          else []
        else [])"
proof (cases "role u = ''admin''")
  case False
  then show ?thesis using su
    by (simp add: anonymization_page_def check_role_admin)
next
  case True
  then have cr: "check_role s [''admin'']" using su by (simp add: check_role_admin)
  show ?thesis
  proof (cases "anonymize_click ev")
    case c: True
    show ?thesis
      using su by (simp add: anonymize_success [OF cr c] True c actions_log_user_action)
  next
    case c: False
    show ?thesis
      by (simp add: anonymization_page_def cr anonymize_column_def c True
          decrypt_column_actions [OF su])
  qed
qed

lemma audit_actions:
  "session_user s = Some u \<Longrightarrow>
   map action (logs (fst (audit_logs_page ev s))) =
     map action (logs s) @
       (if role u = ''admin'' \<and> logs s \<noteq> [] then [''VIEW_AUDIT_LOG''] else [])"
  by (simp add: audit_logs_page_def check_role_admin get_all_logs_def actions_log_user_action)

lemma nav_not_pressed: "nav_clicked ev = [] \<Longrightarrow> \<not> nav_pressed u ev"
  by (simp add: nav_pressed_def list_ex_iff)

lemma nav_pressed_find:
  "nav_pressed u ev = (find (\<lambda>p. p \<in> set (nav_clicked ev)) (nav_pages u) \<noteq> None)"
  by (auto simp add: nav_pressed_def list_ex_iff find_None_iff)

lemma main_actions:
  "map action (logs (fst (main ev s))) = map action (logs s) @ operations ev s @ renders ev s"
proof (cases "session_user s")
  case None
  then show ?thesis
    by (simp add: main_def operations_def renders_def login_actions)
next
  case (Some u)
  show ?thesis
  proof (cases "find (\<lambda>p. p \<in> set (nav_clicked ev)) (nav_pages u)")
    case (Some p)
    then have np: "nav_pressed u ev" by (simp add: nav_pressed_find)
    show ?thesis
      using \<open>session_user s = Some u\<close> Some np
      by (simp add: main_def operations_def renders_def)
  next
    case None
    then have np: "\<not> nav_pressed u ev" by (simp add: nav_pressed_find)
    note su = \<open>session_user s = Some u\<close>
    have m: "main ev s =
       (if logout_click ev then logout ev s
        else if session_page s = ''Dashboard'' then dashboard_page ev s
        else if session_page s = ''Patients'' then patients_page ev s
        else if session_page s = ''Anonymization'' then anonymization_page ev s
        else if session_page s = ''Audit Logs'' then audit_logs_page ev s
        else (s, Done))"
      by (simp add: main_def su None)
    show ?thesis
    proof (cases "logout_click ev")
      case True
      then show ?thesis
        by (simp add: m operations_def renders_def su np logout_actions [OF su])
    next
      case lo: False
      consider (d) "session_page s = ''Dashboard''" | (p) "session_page s = ''Patients''"
        | (a) "session_page s = ''Anonymization''" | (l) "session_page s = ''Audit Logs''"
        | (o) "session_page s \<noteq> ''Dashboard''" "session_page s \<noteq> ''Patients''"
          "session_page s \<noteq> ''Anonymization''" "session_page s \<noteq> ''Audit Logs''"
        by blast
      then show ?thesis
      proof cases
        case d
        then show ?thesis
          by (simp add: m lo operations_def renders_def su np dashboard_actions [OF su])
      next
        case p
        then show ?thesis
          by (simp add: m lo operations_def renders_def su np patients_page_actions [OF su])
      next
        case a
        then show ?thesis
          by (simp add: m lo operations_def renders_def su np anonymization_actions [OF su])
      next
        case l
        then show ?thesis
          by (simp add: m lo operations_def renders_def su np audit_actions [OF su])
      next
        case o
        then show ?thesis
          by (simp add: m lo operations_def renders_def su np)
      qed
    qed
  qed
qed



lemma main_keeps_logged:
  assumes "session_user s \<noteq> None \<longrightarrow> logs s \<noteq> []"
  shows "session_user (fst (main ev s)) \<noteq> None \<longrightarrow> logs (fst (main ev s)) \<noteq> []"
proof (cases "session_user s")
  case None
  show ?thesis
  proof (cases "login_succeeds ev s")
    case True
    have "map action (logs (fst (main ev s))) \<noteq> []"
      by (simp add: main_actions operations_def None True)
    then show ?thesis by simp
  next
    case False
    then have "login_page ev s = (s, Done)"
      by (intro login_failure) (auto simp add: login_succeeds_def)
    then show ?thesis by (simp add: main_def None)
  qed
next
  case (Some u)
  with assms have "map action (logs s) \<noteq> []" by simp
  then have "map action (logs (fst (main ev s))) \<noteq> []"
    by (simp add: main_actions)
  then show ?thesis by simp
qed

lemma run_all_keeps_logged:
  "(session_user s \<noteq> None \<longrightarrow> logs s \<noteq> []) \<Longrightarrow>
   (session_user (run_all evs s) \<noteq> None \<longrightarrow> logs (run_all evs s) \<noteq> [])"
proof (induction evs arbitrary: s)
  case Nil
  then show ?case by simp
next
  case (Cons ev evs)
  from Cons.prems have "session_user (fst (main ev s)) \<noteq> None \<longrightarrow> logs (fst (main ev s)) \<noteq> []"
    by (rule main_keeps_logged)
  then show ?case by (simp add: Cons.IH)
qed

subsection \<open>The example data\<close>



lemma demo_login_run:
  "main (demo_login ''admin'' ''admin123'') demo_state =
     (demo_state\<lparr>session_user := Some (demo_user ''admin'' ''admin''),
        session_page := ''Dashboard'',
        logs := [audit_entry (demo_user ''admin'' ''admin'') ''LOGIN''
                   ''User admin logged in'' 0]\<rparr>, Rerun)"
proof -
  let ?ev = "demo_login ''admin'' ''admin123''"
  have ev: "login_submit ?ev" "login_username ?ev = ''admin''" "login_password ?ev = ''admin123''"
    "now ?ev = 0"
    by (simp_all add: demo_login_def idle_def)
  have l: "login_page ?ev demo_state =
     (demo_state\<lparr>session_user := Some (demo_user ''admin'' ''admin''),
        session_page := ''Dashboard'',
        logs := logs demo_state @ [audit_entry (demo_user ''admin'' ''admin'') ''LOGIN''
                  (''User '' @ login_username ?ev @ '' logged in'') (now ?ev)]\<rparr>, Rerun)"
    by (rule login_success) (simp_all add: ev demo_auth_admin)
  have e0: "logs demo_state = []" "session_user demo_state = None"
    by (simp_all add: demo_state_def)
  show ?thesis
    by (simp add: main_def e0 l ev)
qed

lemma demo_dashboard_run:
  "session_user s = Some u \<Longrightarrow> session_page s = ''Dashboard'' \<Longrightarrow>
   main idle s =
     (s\<lparr>logs := logs s @ [audit_entry u ''VIEW_DASHBOARD'' ''Accessed dashboard'' 0]\<rparr>, Done)"
  by (simp add: main_def idle_def find_never dashboard_page_def log_user_action_Some)

lemma demo_nav_run:
  "session_user s = Some (demo_user ''admin'' ''admin'') \<Longrightarrow>
   main (demo_nav ''Audit Logs'') s = (s\<lparr>session_page := ''Audit Logs''\<rparr>, Rerun)"
  by (simp add: main_def demo_nav_def idle_def nav_pages_def demo_user_def)

lemma demo_visit_state:
  "run_all demo_visit demo_state =
     demo_state\<lparr>session_user := Some (demo_user ''admin'' ''admin''),
        session_page := ''Audit Logs'',
        logs := [audit_entry (demo_user ''admin'' ''admin'') ''LOGIN'' ''User admin logged in'' 0,
                 audit_entry (demo_user ''admin'' ''admin'') ''VIEW_DASHBOARD''
                   ''Accessed dashboard'' 0]\<rparr>"
  by (simp add: demo_visit_def demo_login_run demo_dashboard_run demo_nav_run)

section \<open>The claims\<close>

text \<open>
  Claim C1, as the code has it. When an admin or a receptionist submits the add form with
  a name, a contact and a diagnosis, the run ends in a rerun with exactly one new row, under
  an id no other row has, whose pseudonym is that of the assigned id; the audit entry
  names the id. The insert of lines 181 to 189 first persists the row with the pseudonym
  of the temporary id 999, and the update of line 192 replaces it.
\<close>

theorem add_flow_final_pseudonym:
  assumes "session_user s = Some u" and "role u \<in> {''admin'', ''receptionist''}"
    and "add_submit ev"
    and "add_name ev \<noteq> []" and "add_contact ev \<noteq> []" and "add_diagnosis ev \<noteq> []"
  shows "snd (patients_page ev s) = Rerun \<and>
         patients (fst (patients_page ev s)) =
           patients s @
             [\<lparr>patient_id = new_id (patients s), name = add_name ev, contact = add_contact ev,
               diagnosis = add_diagnosis ev,
               anonymized_name = mask_name (new_id (patients s)),
               anonymized_contact = mask_contact (add_contact ev),
               encrypted_name = encrypt (process_cipher s) (add_name ev),
               encrypted_contact = encrypt (process_cipher s) (add_contact ev),
               date_added = now ev\<rparr>] \<and>
         (\<forall>p\<in>set (patients s). patient_id p \<noteq> new_id (patients s)) \<and>
         last (logs (fst (patients_page ev s))) =
           audit_entry u ''ADD_PATIENT'' (''Added patient ID '' @ str_int (new_id (patients s)))
             (now ev) \<and>
         fst (add_flow_insert ev s) = new_id (patients s) \<and>
         anonymized_name (last (patients (snd (add_flow_insert ev s)))) = mask_name 999"
proof -
  let ?v = "fst (patients_view_tab u ev s)"
  have tab: "patients_add_tab u ev ?v =
     (log_user_action (?v\<lparr>patients := patients ?v @ [added_row ev ?v]\<rparr>) (now ev) ''ADD_PATIENT''
        (''Added patient ID '' @ str_int (new_id (patients ?v))), Rerun)"
    using assms(2-6) by (rule add_tab_success)
  have page: "patients_page ev s =
     (log_user_action (?v\<lparr>patients := patients s @ [added_row ev s]\<rparr>) (now ev) ''ADD_PATIENT''
        (''Added patient ID '' @ str_int (new_id (patients s))), Rerun)"
    by (simp add: patients_page_eq [OF assms(1)] tab)
  have fresh: "\<forall>p\<in>set (patients s). patient_id p \<noteq> new_id (patients s)"
    by (auto dest: new_id_fresh)
  have lg: "last (logs (fst (patients_page ev s))) =
           audit_entry u ''ADD_PATIENT'' (''Added patient ID '' @ str_int (new_id (patients s)))
             (now ev)"
    by (simp add: page log_user_action_Some [of _ u] assms(1))
  show ?thesis
    using fresh lg by (simp add: page added_row_def add_flow_insert_eq)
qed

theorem add_flow_final_pseudonym_witness:
  "session_user (demo_session (demo_user ''alice_recep'' ''receptionist'') ''Patients'')
     = Some (demo_user ''alice_recep'' ''receptionist'') \<and>
   role (demo_user ''alice_recep'' ''receptionist'') \<in> {''admin'', ''receptionist''} \<and>
   add_submit demo_add \<and> add_name demo_add \<noteq> [] \<and> add_contact demo_add \<noteq> [] \<and>
   add_diagnosis demo_add \<noteq> [] \<and>
   snd (patients_page demo_add
      (demo_session (demo_user ''alice_recep'' ''receptionist'') ''Patients'')) = Rerun \<and>
   patients (fst (patients_page demo_add
      (demo_session (demo_user ''alice_recep'' ''receptionist'') ''Patients''))) =
     [\<lparr>patient_id = 1, name = ''Jane Doe'', contact = ''5551234567'', diagnosis = ''flu'',
       anonymized_name = ''ANON_1'', anonymized_contact = ''XXXXXX4567'',
       encrypted_name = ''eoD enaJ'', encrypted_contact = ''7654321555'', date_added = 5\<rparr>] \<and>
   anonymized_name (last (patients (snd (add_flow_insert demo_add
      (demo_session (demo_user ''alice_recep'' ''receptionist'') ''Patients''))))) = ''ANON_999''"
proof -
  let ?s = "demo_session (demo_user ''alice_recep'' ''receptionist'') ''Patients''"
  have h1: "session_user ?s = Some (demo_user ''alice_recep'' ''receptionist'')"
    by (simp add: demo_session_def)
  have h2: "role (demo_user ''alice_recep'' ''receptionist'') \<in> {''admin'', ''receptionist''}"
    by (simp add: demo_user_def)
  have h3: "add_submit demo_add" "add_name demo_add \<noteq> []" "add_contact demo_add \<noteq> []"
    "add_diagnosis demo_add \<noteq> []"
    by (simp_all add: demo_add_def idle_def)
  have vals: "patients ?s = []" "process_cipher ?s = demo_cipher" "now demo_add = 5"
    "add_name demo_add = ''Jane Doe''" "add_contact demo_add = ''5551234567''"
    "add_diagnosis demo_add = ''flu''"
    by (simp_all add: demo_session_def demo_state_def demo_add_def idle_def)
  have id1: "new_id [] = 1"
    by (simp add: new_id_def)
  have mc: "mask_contact ''5551234567'' = ''XXXXXX4567''"
    by (simp add: mask_contact_def suffix_len_def mask_char_def numeral_eq_Suc)
  from add_flow_final_pseudonym [OF h1 h2 h3] h1 h2 h3 show ?thesis
    by (simp add: vals id1 mc mask_name_def mask_prefix_def str_int_1 str_int_999
        demo_cipher_def)
qed

text \<open>
  Claim C1 as stated fails: on the empty demo database the row the insert persists
  carries the pseudonym of 999, not that of the id 1 it was assigned.
\<close>

theorem add_flow_placeholder_counterexample:
  "anonymized_name (last (patients (snd (add_flow_insert demo_add
      (demo_session (demo_user ''alice_recep'' ''receptionist'') ''Patients'')))))
   \<noteq> mask_name (fst (add_flow_insert demo_add
      (demo_session (demo_user ''alice_recep'' ''receptionist'') ''Patients'')))"
  by (simp add: add_flow_insert_eq demo_session_def demo_state_def new_id_def mask_name_eq_iff)




text \<open>
  Claim C3. In a session of a doctor the add tab does nothing, whatever the form holds:
  the patients page is its list view alone, the table is unchanged, and the only entry a
  run of the page appends is the doctor's view entry, when there are patients to view.
  No run of the script in such a session changes the table.
\<close>

theorem doctor_add_denied:
  assumes "session_user s = Some u" and "role u = ''doctor''"
  shows "patients_add_tab u ev s = (s, Done) \<and>
         patients_page ev s = patients_view_tab u ev s \<and>
         patients (fst (patients_page ev s)) = patients s \<and>
         logs (fst (patients_page ev s)) =
           (if patients s = [] then logs s
            else logs s @ [audit_entry u ''VIEW_ANONYMIZED_DATA''
                             ''Doctor viewed anonymized data'' (now ev)]) \<and>
         patients (fst (main ev s)) = patients s"
proof -
  have nw: "role u \<notin> set [''admin'', ''receptionist'']"
    using assms(2) by simp
  have page: "patients_page ev s = patients_view_tab u ev s"
    using assms(1) nw by (rule patients_page_denied)
  have nc: "\<not> check_role s [''admin'']"
    using assms by (simp add: check_role_def)
  have lg: "logs (fst (patients_view_tab u ev s)) =
           (if patients s = [] then logs s
            else logs s @ [audit_entry u ''VIEW_ANONYMIZED_DATA''
                             ''Doctor viewed anonymized data'' (now ev)])"
    using assms by (simp add: view_tab_eq log_user_action_Some [of s u])
  have mn: "patients (fst (main ev s)) = patients s"
    using assms(1) by (simp add: main_def page anonymization_denied [OF nc] split: option.split)
  show ?thesis
    using mn lg by (simp add: add_tab_denied [OF nw] page)
qed

theorem doctor_add_denied_witness:
  "session_user (demo_session (demo_user ''dr_bob'' ''doctor'') ''Patients'')
     = Some (demo_user ''dr_bob'' ''doctor'') \<and>
   role (demo_user ''dr_bob'' ''doctor'') = ''doctor'' \<and>
   add_submit demo_add \<and>
   patients (fst (main demo_add (demo_session (demo_user ''dr_bob'' ''doctor'') ''Patients'')))
     = [] \<and>
   logs (fst (patients_page demo_add (demo_session (demo_user ''dr_bob'' ''doctor'') ''Patients'')))
     = [] \<and>
   patients (fst (patients_page demo_add
      ((demo_session (demo_user ''dr_bob'' ''doctor'') ''Patients'')\<lparr>patients := [demo_patient]\<rparr>)))
     = [demo_patient] \<and>
   map action (logs (fst (patients_page demo_add
      ((demo_session (demo_user ''dr_bob'' ''doctor'') ''Patients'')\<lparr>patients := [demo_patient]\<rparr>))))
     = [''VIEW_ANONYMIZED_DATA'']"
proof -
  let ?s = "demo_session (demo_user ''dr_bob'' ''doctor'') ''Patients''"
  let ?s1 = "?s\<lparr>patients := [demo_patient]\<rparr>"
  have h: "session_user ?s = Some (demo_user ''dr_bob'' ''doctor'')"
    and h1: "session_user ?s1 = Some (demo_user ''dr_bob'' ''doctor'')"
    by (simp_all add: demo_session_def)
  have r: "role (demo_user ''dr_bob'' ''doctor'') = ''doctor''"
    by (simp add: demo_user_def)
  have v: "logs ?s = []" "patients ?s = []" "add_submit demo_add"
    by (simp_all add: demo_session_def demo_state_def demo_add_def idle_def)
  note d = doctor_add_denied [OF h r, of demo_add]
  note d1 = doctor_add_denied [OF h1 r, of demo_add]
  note lg = d [THEN conjunct2, THEN conjunct2, THEN conjunct2, THEN conjunct1]
  note mn = d [THEN conjunct2, THEN conjunct2, THEN conjunct2, THEN conjunct2]
  note pt1 = d1 [THEN conjunct2, THEN conjunct2, THEN conjunct1]
  note lg1 = d1 [THEN conjunct2, THEN conjunct2, THEN conjunct2, THEN conjunct1]
  from lg mn pt1 lg1 h r v show ?thesis
    by (simp add: audit_entry_def)
qed

text \<open>
  Claim C5. After the batch anonymization every row holds the masked form of its own raw
  contact and the pseudonym of its own id, and its id, name, contact, diagnosis and date
  are those it had before; the button of the anonymization page leaves the table in
  exactly that state.
\<close>

theorem anonymize_all_frame:
  "length (patients (anonymize_all_patients c s)) = length (patients s) \<and>
   (\<forall>i<length (patients s).
      anonymized_contact (patients (anonymize_all_patients c s) ! i)
        = mask_contact (contact (patients s ! i)) \<and>
      anonymized_name (patients (anonymize_all_patients c s) ! i)
        = mask_name (patient_id (patients s ! i)) \<and>
      patient_id (patients (anonymize_all_patients c s) ! i) = patient_id (patients s ! i) \<and>
      name (patients (anonymize_all_patients c s) ! i) = name (patients s ! i) \<and>
      contact (patients (anonymize_all_patients c s) ! i) = contact (patients s ! i) \<and>
      diagnosis (patients (anonymize_all_patients c s) ! i) = diagnosis (patients s ! i) \<and>
      date_added (patients (anonymize_all_patients c s) ! i) = date_added (patients s ! i)) \<and>
   (check_role s [''admin''] \<and> anonymize_click ev \<longrightarrow>
      patients (fst (anonymization_page ev s))
        = patients (anonymize_all_patients (get_cipher s) s))"
  by (simp add: anonymize_all_patients_def anonymize_row_def anonymization_page_def
      anonymize_column_def and_then_def)

theorem anonymize_all_frame_witness:
  "0 < length (patients (demo_session (demo_user ''admin'' ''admin'') ''Anonymization''
        \<lparr>patients := [demo_patient]\<rparr>)) \<and>
   check_role (demo_session (demo_user ''admin'' ''admin'') ''Anonymization''
        \<lparr>patients := [demo_patient]\<rparr>) [''admin''] \<and>
   anonymize_click (idle\<lparr>anonymize_click := True\<rparr>) \<and>
   map anonymized_contact (patients (fst (anonymization_page (idle\<lparr>anonymize_click := True\<rparr>)
      (demo_session (demo_user ''admin'' ''admin'') ''Anonymization''
        \<lparr>patients := [demo_patient]\<rparr>)))) = [''XXXXXX4567''] \<and>
   map anonymized_name (patients (fst (anonymization_page (idle\<lparr>anonymize_click := True\<rparr>)
      (demo_session (demo_user ''admin'' ''admin'') ''Anonymization''
        \<lparr>patients := [demo_patient]\<rparr>)))) = [''ANON_1''] \<and>
   map name (patients (fst (anonymization_page (idle\<lparr>anonymize_click := True\<rparr>)
      (demo_session (demo_user ''admin'' ''admin'') ''Anonymization''
        \<lparr>patients := [demo_patient]\<rparr>)))) = [''Jane Doe'']"
  using anonymize_all_frame [of demo_cipher
      "demo_session (demo_user ''admin'' ''admin'') ''Anonymization'' \<lparr>patients := [demo_patient]\<rparr>"
      "idle\<lparr>anonymize_click := True\<rparr>"]
  by (simp add: demo_session_def demo_state_def demo_user_def demo_patient_def idle_def
      check_role_def get_cipher_def anonymize_all_patients_def anonymize_row_def
      mask_contact_def suffix_len_def mask_char_def mask_name_def mask_prefix_def str_int_1
      numeral_eq_Suc)

text \<open>
  Claim C6. Running the batch anonymization a second time with the same cipher, the raw
  fields being what the first run left, changes nothing.
\<close>

theorem anonymize_all_idempotent:
  "anonymize_all_patients c (anonymize_all_patients c s) = anonymize_all_patients c s"
  by (simp add: anonymize_all_patients_def anonymize_row_idem)

text \<open>
  Claim C7. The pseudonym is a function of the identifier alone and is injective: two
  identifiers have the same pseudonym only if they are equal, and the pseudonym a row
  receives does not change with the name stored in the row.
\<close>

theorem mask_name_injective:
  "(mask_name i = mask_name j) = (i = j) \<and>
   anonymized_name (anonymize_row c (p\<lparr>name := n\<rparr>)) = mask_name (patient_id p)"
  by (simp add: mask_name_eq_iff anonymize_row_def)

text \<open>
  Claim C8. A contact at least as long as the preserved suffix keeps its length and its
  trailing \<open>suffix_len\<close> characters, and every character before them is the mask character;
  a shorter contact comes back with every character masked.
\<close>

theorem mask_contact_shape:
  "(suffix_len \<le> length c \<longrightarrow>
      length (mask_contact c) = length c \<and>
      drop (length c - suffix_len) (mask_contact c) = drop (length c - suffix_len) c \<and>
      take (length c - suffix_len) (mask_contact c) = replicate (length c - suffix_len) mask_char) \<and>
   (length c < suffix_len \<longrightarrow> mask_contact c = replicate (length c) mask_char)"
  by (simp add: mask_contact_def)

theorem mask_contact_shape_witness:
  "suffix_len \<le> length ''5551234567'' \<and>
   mask_contact ''5551234567'' = ''XXXXXX4567'' \<and>
   drop 6 (mask_contact ''5551234567'') = ''4567'' \<and>
   take 6 (mask_contact ''5551234567'') = ''XXXXXX'' \<and>
   length ''12'' < suffix_len \<and> mask_contact ''12'' = ''XX''"
  using mask_contact_shape [of "''5551234567''"] mask_contact_shape [of "''12''"]
  by (simp add: suffix_len_def mask_char_def mask_contact_def numeral_eq_Suc)

text \<open>
  Claim C9, as the code has it. When an admin opens the audit log page, the entry
  \<open>VIEW_AUDIT_LOG\<close> is appended if and only if the log already holds an entry, and a view
  of an empty log appends nothing; the router reaches the page unchanged. But no run
  leaves a user in the session with an empty log, since the login writes its entry
  first: in every state reached by runs of the script from a logged-out state the
  admin's view of the audit log is recorded, the very first one included.
\<close>

theorem audit_view_logged_iff_nonempty:
  assumes "session_user s = Some u" and "role u = ''admin''"
  shows "audit_logs_page ev s =
           (if logs s \<noteq> []
            then s\<lparr>logs := logs s @ [audit_entry u ''VIEW_AUDIT_LOG'' ''Accessed audit logs'' (now ev)]\<rparr>
            else s, Done) \<and>
         ((\<exists>e. logs (fst (audit_logs_page ev s)) = logs s @ [e] \<and> action e = ''VIEW_AUDIT_LOG'')
            = (logs s \<noteq> [])) \<and>
         (session_page s = ''Audit Logs'' \<and> \<not> logout_click ev \<and> nav_clicked ev = [] \<longrightarrow>
            main ev s = audit_logs_page ev s) \<and>
         (session_user s0 = None \<and> s = run_all evs s0 \<longrightarrow>
            logs (fst (audit_logs_page ev s)) =
              logs s @ [audit_entry u ''VIEW_AUDIT_LOG'' ''Accessed audit logs'' (now ev)])"
proof -
  have page: "audit_logs_page ev s =
           (if logs s \<noteq> []
            then s\<lparr>logs := logs s @ [audit_entry u ''VIEW_AUDIT_LOG'' ''Accessed audit logs'' (now ev)]\<rparr>
            else s, Done)"
    using assms
    by (simp add: audit_logs_page_def check_role_def get_all_logs_def log_user_action_Some)
  have iff: "(\<exists>e. logs (fst (audit_logs_page ev s)) = logs s @ [e] \<and> action e = ''VIEW_AUDIT_LOG'')
            = (logs s \<noteq> [])"
    by (simp add: page audit_entry_def)
  have route: "session_page s = ''Audit Logs'' \<and> \<not> logout_click ev \<and> nav_clicked ev = [] \<longrightarrow>
            main ev s = audit_logs_page ev s"
    using assms by (simp add: main_def nav_pages_def)
  have reached: "session_user s0 = None \<and> s = run_all evs s0 \<longrightarrow>
            logs (fst (audit_logs_page ev s)) =
              logs s @ [audit_entry u ''VIEW_AUDIT_LOG'' ''Accessed audit logs'' (now ev)]"
  proof
    assume r: "session_user s0 = None \<and> s = run_all evs s0"
    then have "session_user s0 \<noteq> None \<longrightarrow> logs s0 \<noteq> []" by simp
    then have "session_user (run_all evs s0) \<noteq> None \<longrightarrow> logs (run_all evs s0) \<noteq> []"
      by (rule run_all_keeps_logged)
    with r assms(1) have "logs s \<noteq> []" by simp
    then show "logs (fst (audit_logs_page ev s)) =
              logs s @ [audit_entry u ''VIEW_AUDIT_LOG'' ''Accessed audit logs'' (now ev)]"
      by (simp add: page)
  qed
  from page iff route reached show ?thesis by (intro conjI)
qed

theorem audit_view_logged_iff_nonempty_witness:
  "session_user (demo_session (demo_user ''admin'' ''admin'') ''Audit Logs'')
     = Some (demo_user ''admin'' ''admin'') \<and>
   role (demo_user ''admin'' ''admin'') = ''admin'' \<and>
   logs (fst (audit_logs_page idle (demo_session (demo_user ''admin'' ''admin'') ''Audit Logs'')))
     = [] \<and>
   map action (logs (fst (audit_logs_page idle
      ((demo_session (demo_user ''admin'' ''admin'') ''Audit Logs'')
        \<lparr>logs := [audit_entry (demo_user ''admin'' ''admin'') ''LOGIN'' [] 0]\<rparr>))))
     = [''LOGIN'', ''VIEW_AUDIT_LOG''] \<and>
   session_user demo_state = None \<and>
   session_user (run_all demo_visit demo_state) = Some (demo_user ''admin'' ''admin'') \<and>
   session_page (run_all demo_visit demo_state) = ''Audit Logs'' \<and>
   \<not> logout_click idle \<and> nav_clicked idle = [] \<and>
   map action (logs (fst (main idle (run_all demo_visit demo_state))))
     = [''LOGIN'', ''VIEW_DASHBOARD'', ''VIEW_AUDIT_LOG'']"
proof -
  let ?s = "demo_session (demo_user ''admin'' ''admin'') ''Audit Logs''"
  let ?s1 = "?s\<lparr>logs := [audit_entry (demo_user ''admin'' ''admin'') ''LOGIN'' [] 0]\<rparr>"
  let ?s2 = "run_all demo_visit demo_state"
  have h: "session_user ?s = Some (demo_user ''admin'' ''admin'')"
    and h1: "session_user ?s1 = Some (demo_user ''admin'' ''admin'')"
    by (simp_all add: demo_session_def)
  have h2: "session_user ?s2 = Some (demo_user ''admin'' ''admin'')"
    and p2: "session_page ?s2 = ''Audit Logs''"
    and l2: "map action (logs ?s2) = [''LOGIN'', ''VIEW_DASHBOARD'']"
    by (simp_all add: demo_visit_state audit_entry_def)
  have r: "role (demo_user ''admin'' ''admin'') = ''admin''"
    by (simp add: demo_user_def)
  have v: "logs ?s = []" "session_user demo_state = None"
    "\<not> logout_click idle" "nav_clicked idle = []"
    by (simp_all add: demo_session_def demo_state_def idle_def)
  note a = audit_view_logged_iff_nonempty [OF h r, of idle]
  note b = audit_view_logged_iff_nonempty [OF h1 r, of idle]
  note c = audit_view_logged_iff_nonempty [OF h2 r, of idle demo_state demo_visit]
  have w1: "logs (fst (audit_logs_page idle ?s)) = []"
    using a [THEN conjunct1] by (simp add: v)
  have w2: "map action (logs (fst (audit_logs_page idle ?s1))) = [''LOGIN'', ''VIEW_AUDIT_LOG'']"
    using b [THEN conjunct1] by (simp add: audit_entry_def)
  have m: "main idle ?s2 = audit_logs_page idle ?s2"
    using c [THEN conjunct2, THEN conjunct2, THEN conjunct1] p2 v by blast
  have w3: "map action (logs (fst (main idle ?s2))) = [''LOGIN'', ''VIEW_DASHBOARD'', ''VIEW_AUDIT_LOG'']"
    using c [THEN conjunct2, THEN conjunct2, THEN conjunct2] v(2)
    by (simp add: m l2 audit_entry_def)
  from h r w1 w2 v(2) h2 p2 v(3,4) w3 show ?thesis by (intro conjI)
qed

text \<open>
  Claim C9 as stated fails in its last clause: on the fresh demo system the admin logs
  in and opens the audit log, and this very first view is recorded.
\<close>

theorem first_audit_view_counterexample:
  "session_user demo_state = None \<and> logs demo_state = [] \<and>
   map action (logs (run_all (demo_visit @ [idle]) demo_state))
     = [''LOGIN'', ''VIEW_DASHBOARD'', ''VIEW_AUDIT_LOG'']"
proof -
  have e0: "session_user demo_state = None" "logs demo_state = []"
    by (simp_all add: demo_state_def)
  have r: "run_all (demo_visit @ [idle]) demo_state = fst (main idle (run_all demo_visit demo_state))"
    by (simp add: demo_visit_def)
  have ni: "\<not> nav_pressed (demo_user ''admin'' ''admin'') idle" "\<not> logout_click idle"
    by (simp_all add: nav_not_pressed idle_def)
  have a: "map action (logs (fst (main idle (run_all demo_visit demo_state))))
     = [''LOGIN'', ''VIEW_DASHBOARD'', ''VIEW_AUDIT_LOG'']"
    using ni
    by (simp add: main_actions demo_visit_state operations_def renders_def
        demo_user_def audit_entry_def)
  from e0 a show ?thesis by (simp only: r)
qed

text \<open>
  Claim C10. Every render of the dashboard in a session with a user, whatever the role,
  appends the entry \<open>VIEW_DASHBOARD\<close>, and that is all it changes.
\<close>

theorem dashboard_render_logged:
  assumes "session_user s = Some u"
  shows "dashboard_page ev s =
           (s\<lparr>logs := logs s @ [audit_entry u ''VIEW_DASHBOARD'' ''Accessed dashboard'' (now ev)]\<rparr>,
            Done) \<and>
         (session_page s = ''Dashboard'' \<and> \<not> logout_click ev \<and> nav_clicked ev = [] \<longrightarrow>
            main ev s = dashboard_page ev s)"
  using assms
  by (simp add: dashboard_page_def log_user_action_Some main_def nav_pages_def)

theorem dashboard_render_logged_witness:
  "session_user (demo_session (demo_user ''dr_bob'' ''doctor'') ''Dashboard'')
     = Some (demo_user ''dr_bob'' ''doctor'') \<and>
   session_page (demo_session (demo_user ''dr_bob'' ''doctor'') ''Dashboard'') = ''Dashboard'' \<and>
   \<not> logout_click idle \<and> nav_clicked idle = [] \<and>
   map action (logs (fst (main idle (demo_session (demo_user ''dr_bob'' ''doctor'') ''Dashboard''))))
     = [''VIEW_DASHBOARD'']"
proof -
  let ?s = "demo_session (demo_user ''dr_bob'' ''doctor'') ''Dashboard''"
  have h: "session_user ?s = Some (demo_user ''dr_bob'' ''doctor'')"
    by (simp add: demo_session_def)
  have v: "session_page ?s = ''Dashboard''" "\<not> logout_click idle" "nav_clicked idle = []"
    "logs ?s = []"
    by (simp_all add: demo_session_def demo_state_def idle_def)
  from dashboard_render_logged [OF h, of idle] h v show ?thesis
    by (simp add: audit_entry_def)
qed

end
